theory Spec2Isabelle
  imports Main "HOL-Library.Char_ord" "HOL-Library.List_Lexorder"
begin

section \<open>The daily price download of cloud\_lab\_sim (download\_todays\_data.py)\<close>

text \<open>
  The script is one Python module: the retriever \<open>DownloadFile\<close>, the artifact store
  \<open>PriceFileManager\<close>, the calendar check \<open>MarketChecker\<close> and the orchestrator
  \<open>PriceDataApp\<close>. Everything the module reads from outside (the wall clock, the
  directory, the browser) is a field of a record; every call into the outside is an
  event of a trace, so that "the browser was never started" is a statement about a list.
  Strings are ASCII. A log message is written without its leading marker (\<open>[*]\<close> or an
  emoji) and without the values interpolated into it.
\<close>

subsection \<open>Exceptions, events and the shape of a computation\<close>

text \<open>The exception classes the module can meet; all of them derive from \<open>Exception\<close>.\<close>

datatype pyerror =
    TypeError
  | ValueError
  | AttributeError
  | UnboundLocalError
  | OSError
  | WebDriverException

datatype level = INFO | WARNING | ERROR

datatype event =
    Log level string
  | Glob string
  | Stat string
  | Chrome_start
  | Execute_script
  | Get_page
  | Wait_clickable nat
  | Click
  | Quit
  | Pkill
  | Print_exc

text \<open>
  A computation either does not return (\<open>None\<close>, only the polling loop can), or ends
  with a value or a raised exception, having produced a trace of events.
\<close>

type_synonym 'a act = "((pyerror + 'a) \<times> event list) option"

definition ret :: "'a \<Rightarrow> 'a act" where
  "ret x = Some (Inr x, [])"

definition throw :: "pyerror \<Rightarrow> 'a act" where
  "throw e = Some (Inl e, [])"

definition emit :: "event \<Rightarrow> unit act" where
  "emit ev = Some (Inr (), [ev])"

definition act_bind :: "'a act \<Rightarrow> ('a \<Rightarrow> 'b act) \<Rightarrow> 'b act" where
  "act_bind m f =
     (case m of
        None \<Rightarrow> None
      | Some (Inl e, tr) \<Rightarrow> Some (Inl e, tr)
      | Some (Inr x, tr) \<Rightarrow>
          (case f x of None \<Rightarrow> None | Some (r, tr') \<Rightarrow> Some (r, tr @ tr')))"

definition seq :: "unit act \<Rightarrow> 'b act \<Rightarrow> 'b act" where
  "seq m n = act_bind m (\<lambda>_. n)"

text \<open>\<open>try: m except Exception as e: h e\<close>\<close>

definition try_except :: "'a act \<Rightarrow> (pyerror \<Rightarrow> 'a act) \<Rightarrow> 'a act" where
  "try_except m h =
     (case m of
        None \<Rightarrow> None
      | Some (Inr x, tr) \<Rightarrow> Some (Inr x, tr)
      | Some (Inl e, tr) \<Rightarrow>
          (case h e of None \<Rightarrow> None | Some (r, tr') \<Rightarrow> Some (r, tr @ tr')))"

text \<open>
  \<open>try: m finally: fin\<close>: the \<open>finally\<close> block runs whatever \<open>m\<close> did; an
  exception raised inside it replaces the outcome of \<open>m\<close>.
\<close>

definition try_finally :: "'a act \<Rightarrow> unit act \<Rightarrow> 'a act" where
  "try_finally m fin =
     (case m of
        None \<Rightarrow> None
      | Some (r, tr) \<Rightarrow>
          (case fin of
             None \<Rightarrow> None
           | Some (Inl e, tr') \<Rightarrow> Some (Inl e, tr @ tr')
           | Some (Inr _, tr') \<Rightarrow> Some (r, tr @ tr')))"

definition outcome :: "'a act \<Rightarrow> (pyerror + 'a) option" where
  "outcome m = map_option fst m"

definition trace :: "'a act \<Rightarrow> event list" where
  "trace m = (case m of None \<Rightarrow> [] | Some (_, tr) \<Rightarrow> tr)"

subsection \<open>Calendar dates (\<open>datetime.date\<close>)\<close>

datatype date = Date (year: int) (month: int) (day: int)

definition is_leap :: "int \<Rightarrow> bool" where
  "is_leap y = (y mod 4 = 0 \<and> (if y mod 100 = 0 then y mod 400 = 0 else True))"

definition days_in_month :: "int \<Rightarrow> int \<Rightarrow> int" where
  "days_in_month y m =
     (if m = 2 then (if is_leap y then 29 else 28)
      else if m = 4 \<or> m = 6 \<or> m = 9 \<or> m = 11 then 30 else 31)"

definition days_before_year :: "int \<Rightarrow> int" where
  "days_before_year y = (let p = y - 1 in p * 365 + p div 4 - p div 100 + p div 400)"

definition days_before_month :: "int \<Rightarrow> int \<Rightarrow> int" where
  "days_before_month y m =
     [0, 31, 59, 90, 120, 151, 181, 212, 243, 273, 304, 334] ! nat (m - 1)
       + (if 2 < m \<and> is_leap y then 1 else 0)"

definition toordinal :: "date \<Rightarrow> int" where
  "toordinal dt = days_before_year (year dt) + days_before_month (year dt) (month dt) + day dt"

text \<open>\<open>date.weekday()\<close>: Monday is 0, Sunday is 6.\<close>

definition weekday :: "date \<Rightarrow> int" where
  "weekday dt = (toordinal dt + 6) mod 7"

text \<open>
  The constructor \<open>date(y, m, d)\<close> raises ValueError outside \<open>1 \<le> y \<le> 9999\<close>,
  \<open>1 \<le> m \<le> 12\<close>, \<open>1 \<le> d \<le> days_in_month\<close>.
\<close>

definition valid_date :: "int \<Rightarrow> int \<Rightarrow> int \<Rightarrow> bool" where
  "valid_date y m d =
     (1 \<le> y \<and> y \<le> 9999 \<and> 1 \<le> m \<and> m \<le> 12 \<and> 1 \<le> d \<and> d \<le> days_in_month y m)"

subsection \<open>\<open>datetime.strptime(s, "%Y-%m-%d")\<close>\<close>

text \<open>
  The format compiles to the regular expression
  \<open>(\d\d\d\d)-(1[0-2]|0[1-9]|[1-9])-(3[01]|[12]\d|0[1-9]|[1-9]| [1-9])\<close>, matched as a
  prefix of the string; a string that does not match, a match that leaves characters
  over, and a matched triple that is no calendar date all raise ValueError.
\<close>

definition is_digit :: "char \<Rightarrow> bool" where
  "is_digit c = (c \<in> set ''0123456789'')"

definition digit_val :: "char \<Rightarrow> int" where
  "digit_val c = int (of_char c) - 48"

definition in_range :: "char \<Rightarrow> char \<Rightarrow> char \<Rightarrow> bool" where
  "in_range lo hi c = (is_digit c \<and> digit_val lo \<le> digit_val c \<and> digit_val c \<le> digit_val hi)"

definition match_Y :: "string \<Rightarrow> (int \<times> string) option" where
  "match_Y s =
     (case s of
        a # b # c # d # rest \<Rightarrow>
          if is_digit a \<and> is_digit b \<and> is_digit c \<and> is_digit d
          then Some (1000 * digit_val a + 100 * digit_val b + 10 * digit_val c + digit_val d, rest)
          else None
      | _ \<Rightarrow> None)"

definition match_dash :: "string \<Rightarrow> string option" where
  "match_dash s = (case s of c # rest \<Rightarrow> if c = CHR ''-'' then Some rest else None | [] \<Rightarrow> None)"

text \<open>
  The month group is followed by a literal \<open>-\<close>, so the matcher backtracks over its
  alternatives until the dash matches too; the result is the month and what follows the dash.
\<close>

definition match_m_dash :: "string \<Rightarrow> (int \<times> string) option" where
  "match_m_dash s =
     (case s of
        a # b # rest \<Rightarrow>
          if a = CHR ''1'' \<and> in_range CHR ''0'' CHR ''2'' b \<and> match_dash rest \<noteq> None
            then Some (10 + digit_val b, the (match_dash rest))
          else if a = CHR ''0'' \<and> in_range CHR ''1'' CHR ''9'' b \<and> match_dash rest \<noteq> None
            then Some (digit_val b, the (match_dash rest))
          else if in_range CHR ''1'' CHR ''9'' a \<and> b = CHR ''-''
            then Some (digit_val a, rest)
          else None
      | _ \<Rightarrow> None)"

text \<open>The day group is last: its first alternative that matches is taken.\<close>

definition match_d :: "string \<Rightarrow> (int \<times> string) option" where
  "match_d s =
     (case s of
        [] \<Rightarrow> None
      | [a] \<Rightarrow> if in_range CHR ''1'' CHR ''9'' a then Some (digit_val a, []) else None
      | a # b # rest \<Rightarrow>
          if a = CHR ''3'' \<and> in_range CHR ''0'' CHR ''1'' b then Some (30 + digit_val b, rest)
          else if in_range CHR ''1'' CHR ''2'' a \<and> is_digit b
            then Some (10 * digit_val a + digit_val b, rest)
          else if a = CHR ''0'' \<and> in_range CHR ''1'' CHR ''9'' b then Some (digit_val b, rest)
          else if in_range CHR ''1'' CHR ''9'' a then Some (digit_val a, b # rest)
          else if a = CHR '' '' \<and> in_range CHR ''1'' CHR ''9'' b then Some (digit_val b, rest)
          else None)"

definition strptime_ymd :: "string \<Rightarrow> pyerror + date" where
  "strptime_ymd s =
     (case match_Y s of
        None \<Rightarrow> Inl ValueError
      | Some (y, s1) \<Rightarrow>
          (case match_dash s1 of
             None \<Rightarrow> Inl ValueError
           | Some s2 \<Rightarrow>
               (case match_m_dash s2 of
                  None \<Rightarrow> Inl ValueError
                | Some (m, s3) \<Rightarrow>
                    (case match_d s3 of
                       None \<Rightarrow> Inl ValueError
                     | Some (d, s4) \<Rightarrow>
                         if s4 \<noteq> [] then Inl ValueError
                         else if valid_date y m d then Inr (Date y m d)
                         else Inl ValueError))))"

subsection \<open>Path names (\<open>pathlib\<close>)\<close>

text \<open>\<open>str.rfind\<close> of one character: the index of its last occurrence.\<close>

definition rfind :: "char \<Rightarrow> string \<Rightarrow> nat option" where
  "rfind c s =
     (if c \<in> set s then Some (length s - 1 - length (takeWhile (\<lambda>x. x \<noteq> c) (rev s))) else None)"

text \<open>\<open>Path.suffix\<close> and \<open>Path.stem\<close> of a file name.\<close>

definition suffix :: "string \<Rightarrow> string" where
  "suffix name =
     (case rfind CHR ''.'' name of
        None \<Rightarrow> []
      | Some i \<Rightarrow> if 0 < i \<and> i < length name - 1 then drop i name else [])"

definition stem :: "string \<Rightarrow> string" where
  "stem name =
     (case rfind CHR ''.'' name of
        None \<Rightarrow> name
      | Some i \<Rightarrow> if 0 < i \<and> i < length name - 1 then take i name else name)"

text \<open>
  \<open>s.split(" - ")\<close>: the separator is searched from the left, occurrences do not
  overlap. \<open>cur\<close> is the piece being read, in reverse.
\<close>

function split_sep :: "string \<Rightarrow> string \<Rightarrow> string list" where
  "split_sep cur s =
     (if s = [] then [rev cur]
      else if take 3 s = '' - '' then rev cur # split_sep [] (drop 3 s)
      else split_sep (hd s # cur) (tl s))"
  by pat_completeness auto
termination
  by (relation "measure (\<lambda>(cur, s). length s)") auto

definition last_piece :: "string \<Rightarrow> string" where
  "last_piece s = last (split_sep [] s)"

text \<open>A name matches the glob pattern \<open>*ext\<close> when it ends with \<open>ext\<close>.\<close>

definition ends_with :: "string \<Rightarrow> string \<Rightarrow> bool" where
  "ends_with ext name = (length ext \<le> length name \<and> drop (length name - length ext) name = ext)"

text \<open>
  A POSIX path as \<open>pathlib\<close> holds it: the list of its parts, the root (\<open>/\<close>, or
  \<open>//\<close> for exactly two leading slashes) first when the path is absolute. Parsing a
  string splits it at every \<open>/\<close> and drops the empty pieces and the pieces \<open>.\<close>;
  a piece \<open>..\<close> stays.
\<close>

fun split_char :: "char \<Rightarrow> string \<Rightarrow> string \<Rightarrow> string list" where
  "split_char c cur [] = [rev cur]"
| "split_char c cur (x # xs) =
     (if x = c then rev cur # split_char c [] xs else split_char c (x # cur) xs)"

definition rel_parts :: "string \<Rightarrow> string list" where
  "rel_parts rel = filter (\<lambda>x. x \<noteq> [] \<and> x \<noteq> ''.'') (split_char CHR ''/'' [] rel)"

definition path_parts :: "string \<Rightarrow> string list" where
  "path_parts part =
     (if part \<noteq> [] \<and> hd part = CHR ''/''
      then (let stripped = dropWhile (\<lambda>c. c = CHR ''/'') part;
                root = (if length part - length stripped = 2 then ''//'' else ''/'')
            in root # rel_parts stripped)
      else rel_parts part)"

fun join_sep :: "string list \<Rightarrow> string" where
  "join_sep [] = []"
| "join_sep [x] = x"
| "join_sep (x # y # rest) = x @ ''/'' @ join_sep (y # rest)"

definition is_anchored :: "string list \<Rightarrow> bool" where
  "is_anchored parts = (parts \<noteq> [] \<and> take 1 (hd parts) = ''/'')"

text \<open>\<open>str(path)\<close>: the root, then the other parts joined by \<open>/\<close>; \<open>.\<close> for no parts.\<close>

definition path_str :: "string list \<Rightarrow> string" where
  "path_str parts =
     (let s = (if is_anchored parts then hd parts @ join_sep (tl parts) else join_sep parts)
      in if s = [] then ''.'' else s)"

text \<open>
  \<open>str(Path(dir) / name)\<close>: an absolute \<open>name\<close> replaces \<open>dir\<close>, any other is parsed
  and appended to the parts of \<open>dir\<close>.
\<close>

definition joinpath :: "string \<Rightarrow> string \<Rightarrow> string" where
  "joinpath dir name =
     path_str (if is_anchored (path_parts name) then path_parts name
               else path_parts dir @ path_parts name)"

subsection \<open>The world the script runs in\<close>

text \<open>
  \<open>os.stat\<close> of a path: the file's kind and the local date of its modification time, or
  a failure. \<open>Stat_missing\<close> stands for the failures \<open>Path.is_file\<close> swallows (the
  errors ENOENT, ENOTDIR, EBADF and ELOOP, and the ValueError of a name with a null byte),
  \<open>Stat_denied\<close> for every other OSError, such as EACCES for a directory that may
  not be searched or ENAMETOOLONG for a file name of more than 255 bytes.
\<close>

datatype stat_result = Stat_ok bool date | Stat_missing | Stat_denied

text \<open>
  One run of the script sees one date (\<open>datetime.today()\<close>; a run across midnight is not
  modelled). \<open>entries\<close> are the names in \<open>RAW_SAVED_DIR\<close> when the run starts, in the
  order the directory yields them; a path that a listing yields is written as its name
  alone, and \<open>stat_of\<close> answers for a path as the code holds it (such a name, or the
  joined path of \<open>get_file_by_date\<close>).
  \<open>dir_at k\<close> and \<open>marker_at k\<close> are the directory as the two listings of the
  \<open>k\<close>-th polling round see it, \<open>clock k\<close> the \<open>k\<close>-th reading of the clock in
  whole seconds. The remaining fields say how the browser answers: \<open>clickable i\<close> is
  whether selector \<open>i\<close> finds a clickable element within its wait, \<open>scroll_ok\<close> whether
  the scroll script runs for the element located (\<open>None\<close> when none was), and
  \<open>pkill_result\<close> the return code of \<open>pkill\<close> (\<open>None\<close>: \<open>subprocess.run\<close> raised).
\<close>

record world =
  today :: date
  weekend_days :: "int set"
  log_flag :: bool
  raw_dir :: string
  entries :: "string list"
  stat_of :: "string \<Rightarrow> stat_result"
  timeout_cfg :: int
  clock :: "nat \<Rightarrow> int"
  dir_at :: "nat \<Rightarrow> string list"
  marker_at :: "nat \<Rightarrow> string list"
  chrome_starts :: bool
  stealth_ok :: bool
  page_loads :: bool
  clickable :: "nat \<Rightarrow> bool"
  scroll_ok :: "nat option \<Rightarrow> bool"
  click_ok :: bool
  quit_ok :: bool
  pkill_result :: "int option"

subsection \<open>The name \<open>time\<close> (line 7)\<close>

text \<open>
  \<open>from datetime import datetime, time\<close> binds the module's global \<open>time\<close> to the
  class \<open>datetime.time\<close>; the module never imports the standard module \<open>time\<close>.
  \<open>time.time()\<close> and \<open>time.sleep(n)\<close> first look the attribute up on whatever the
  name is bound to, and raise AttributeError when it has none of that name.
\<close>

datatype time_binding = Time_module | Datetime_time_class

definition attributes_of :: "time_binding \<Rightarrow> string list" where
  "attributes_of b =
     (case b of
        Time_module \<Rightarrow>
          [''time'', ''sleep'', ''monotonic'', ''perf_counter'', ''localtime'', ''gmtime'',
           ''strftime'', ''strptime'', ''mktime'', ''ctime'', ''asctime'']
      | Datetime_time_class \<Rightarrow>
          [''dst'', ''fold'', ''fromisoformat'', ''hour'', ''isoformat'', ''max'',
           ''microsecond'', ''min'', ''minute'', ''replace'', ''resolution'', ''second'',
           ''strftime'', ''tzinfo'', ''tzname'', ''utcoffset''])"

definition module_time :: time_binding where
  "module_time = Datetime_time_class"

definition time_time :: "int \<Rightarrow> int act" where
  "time_time now =
     (if ''time'' \<in> set (attributes_of module_time) then ret now else throw AttributeError)"

definition time_sleep :: "unit act" where
  "time_sleep =
     (if ''sleep'' \<in> set (attributes_of module_time) then ret () else throw AttributeError)"

subsection \<open>\<open>PriceFileManager\<close>: the artifact store\<close>

text \<open>
  \<open>obj.f(arg)\<close> on a plain function of the class passes two positional arguments,
  \<open>obj\<close> and \<open>arg\<close>. A \<open>def\<close> with two parameters runs its body on \<open>arg\<close>; with any
  other number (and no defaults) Python raises TypeError before the body runs.
\<close>

definition call_method1 :: "nat \<Rightarrow> ('p \<Rightarrow> 'a act) \<Rightarrow> 'p \<Rightarrow> 'a act" where
  "call_method1 nparams f arg = (if nparams = 2 then f arg else throw TypeError)"

text \<open>
  Lines 271 and 275: \<open>def is_file_modified_today(file_path: Path)\<close> and
  \<open>def is_file_from_today(file_path: Path)\<close>, neither with \<open>self\<close> nor a
  \<open>@staticmethod\<close> decorator.
\<close>

definition is_file_modified_today_nparams :: nat where
  "is_file_modified_today_nparams = 1"

definition is_file_from_today_nparams :: nat where
  "is_file_from_today_nparams = 1"

definition is_file_modified_today :: "world \<Rightarrow> string \<Rightarrow> bool act" where
  "is_file_modified_today w file_path =
     seq (emit (Stat file_path))
       (case stat_of w file_path of
          Stat_ok _ modified \<Rightarrow> ret (modified = today w)
        | _ \<Rightarrow> throw OSError)"

definition is_file_from_today :: "world \<Rightarrow> string \<Rightarrow> bool act" where
  "is_file_from_today w file_path =
     (let date_str = last_piece (stem file_path)
      in case strptime_ymd date_str of
           Inl e \<Rightarrow> throw e
         | Inr file_creation_date \<Rightarrow> ret (file_creation_date = today w))"

text \<open>\<open>Path.is_file\<close>\<close>

definition is_file :: "world \<Rightarrow> string \<Rightarrow> bool act" where
  "is_file w p =
     seq (emit (Stat p))
       (case stat_of w p of
          Stat_ok regular _ \<Rightarrow> ret regular
        | Stat_missing \<Rightarrow> ret False
        | Stat_denied \<Rightarrow> throw OSError)"

text \<open>Line 282 sets \<open>suffix = ""\<close>, here \<open>sfx\<close>; \<open>file_type\<close> is not read.\<close>

definition get_file_by_date :: "world \<Rightarrow> string \<Rightarrow> string \<Rightarrow> string option act" where
  "get_file_by_date w date_str file_type =
     (let sfx = [];
          filename = ''Today's Price - '' @ date_str @ sfx @ ''.csv'';
          filepath = joinpath (raw_dir w) filename
      in act_bind (is_file w filepath) (\<lambda>found. ret (if found then Some filepath else None)))"

text \<open>\<open>[x for x in xs if p(x)]\<close>, where \<open>p\<close> may raise.\<close>

fun comprehension :: "('a \<Rightarrow> bool act) \<Rightarrow> 'a list \<Rightarrow> 'a list act" where
  "comprehension p [] = ret []"
| "comprehension p (x # xs) =
     act_bind (p x) (\<lambda>keep.
     act_bind (comprehension p xs) (\<lambda>kept. ret (if keep then x # kept else kept)))"

definition get_todays_files :: "world \<Rightarrow> string list act" where
  "get_todays_files w =
     seq (emit (Glob ''*.csv''))
       (let temp_save_dir = remdups (filter (ends_with ''.csv'') (entries w));
            existing_files = sort temp_save_dir
        in comprehension (call_method1 is_file_from_today_nparams (is_file_from_today w))
             existing_files)"

definition file_exists_for_date :: "world \<Rightarrow> string \<Rightarrow> string \<Rightarrow> bool act" where
  "file_exists_for_date w date_str file_type =
     act_bind (get_file_by_date w date_str file_type) (\<lambda>r. ret (r \<noteq> None))"

subsection \<open>\<open>MarketChecker\<close>\<close>

definition is_weekend :: "world \<Rightarrow> bool" where
  "is_weekend w = (weekday (today w) \<in> weekend_days w)"

subsection \<open>\<open>DownloadFile\<close>: the retriever\<close>

text \<open>
  \<open>kill_chromedriver\<close> (lines 61-72): \<open>pkill -f chromedriver\<close>, every exception
  swallowed.
\<close>

definition kill_chromedriver :: "world \<Rightarrow> unit act" where
  "kill_chromedriver w =
     try_except
       (seq (emit Pkill)
          (case pkill_result w of
             None \<Rightarrow> throw OSError
           | Some returncode \<Rightarrow>
               if returncode = 0 then emit (Log INFO ''Cleaned up chromedriver processes'')
               else ret ()))
       (\<lambda>_. ret ())"

definition ascii_lower :: "char \<Rightarrow> char" where
  "ascii_lower c =
     (if CHR ''A'' \<le> c \<and> c \<le> CHR ''Z'' then char_of (of_char c + (32::nat)) else c)"

text \<open>
  The loop of \<open>wait_for_download_complete\<close> (lines 79-94), round \<open>k\<close>, with the trace
  so far. The set difference \<open>current_files - initial_files\<close> is iterated in the order of
  the listing. The loop ends only when the clock says so, hence the result is partial.
\<close>

partial_function (option) poll ::
  "world \<Rightarrow> string list \<Rightarrow> int \<Rightarrow> int \<Rightarrow> nat \<Rightarrow> event list \<Rightarrow>
     ((pyerror + string option) \<times> event list) option"
where
  "poll w initial_files timeout start_time k tr =
     (case time_time (clock w (Suc k)) of
        None \<Rightarrow> None
      | Some (Inl e, _) \<Rightarrow> Some (Inl e, tr)
      | Some (Inr now, _) \<Rightarrow>
          if now - start_time < timeout then
            (let new_files = filter (\<lambda>f. f \<notin> set initial_files) (remdups (dir_at w k));
                 new_csv_files = filter (\<lambda>f. map ascii_lower (suffix f) = ''.csv'') new_files;
                 crdownload_files = filter (ends_with ''.crdownload'') (marker_at w k);
                 tr1 = tr @ [Glob ''*'', Glob ''*.crdownload'']
             in if new_csv_files \<noteq> [] \<and> crdownload_files = []
                then Some (Inr (Some (hd new_csv_files)), tr1)
                else (let tr2 = (if crdownload_files \<noteq> []
                                 then tr1 @ [Log INFO ''Download in progress...''] else tr1)
                      in case time_sleep of
                           None \<Rightarrow> None
                         | Some (Inl e, _) \<Rightarrow> Some (Inl e, tr2)
                         | Some (Inr _, _) \<Rightarrow>
                             poll w initial_files timeout start_time (Suc k) tr2))
          else Some (Inr None, tr))"

declare poll.simps [code]

text \<open>\<open>wait_for_download_complete\<close> (lines 74-96); line 77 reads the clock first.\<close>

definition wait_for_download_complete ::
  "world \<Rightarrow> string list \<Rightarrow> int \<Rightarrow> string option act" where
  "wait_for_download_complete w initial_files timeout =
     act_bind (time_time (clock w 0)) (\<lambda>start_time.
       poll w initial_files timeout start_time 0 [])"

definition setup_browser :: "world \<Rightarrow> unit act" where
  "setup_browser w =
     seq (emit Chrome_start) (if chrome_starts w then ret () else throw WebDriverException)"

definition download_selectors :: "string list" where
  "download_selectors =
     [''//a[contains(@class,'table__file') and contains(text(),'Download as CSV')]'',
      ''//a[contains(text(),'Download as CSV')]'',
      ''//a[contains(text(),'CSV')]'',
      ''//a[@class='table__file']'',
      ''//button[contains(text(),'Download as CSV')]'',
      ''//*[contains(text(),'Download') and contains(text(),'CSV')]'']"

text \<open>
  The selector loop (lines 162-174). The element found is named by the index of the
  selector that found it; \<open>None\<close> is Python's \<open>None\<close>, left in \<open>download_link\<close> when
  every selector failed.
\<close>

fun locate :: "world \<Rightarrow> nat \<Rightarrow> string list \<Rightarrow> nat option act" where
  "locate w i [] = ret None"
| "locate w i (selector # rest) =
     seq (emit (Log INFO ''Trying selector''))
    (seq (emit (Wait_clickable i))
       (if clickable w i
        then seq (emit (Log INFO ''Found download link with selector'')) (ret (Some i))
        else seq (emit (Log ERROR ''Selector failed'')) (locate w (Suc i) rest)))"

text \<open>\<open>download_link.click()\<close>: on \<open>None\<close> the attribute lookup raises.\<close>

definition click :: "world \<Rightarrow> nat option \<Rightarrow> unit act" where
  "click w download_link =
     (case download_link of
        None \<Rightarrow> throw AttributeError
      | Some _ \<Rightarrow> seq (emit Click) (if click_ok w then ret () else throw WebDriverException))"

text \<open>The \<open>try\<close> block of \<open>download_todays_price\<close> (lines 140-233).\<close>

definition attempt :: "world \<Rightarrow> string list \<Rightarrow> string option act" where
  "attempt w initial_files =
     seq (emit (Log INFO ''Driver started successfully''))
    (seq (emit (Log INFO ''Download directory:''))
    (seq (emit (Log INFO ''Starting the process....''))
    (seq (emit (Log INFO ''Opening NEPSE 'Today's Price' page...''))
    (seq (emit Get_page)
    (seq (if page_loads w then ret () else throw WebDriverException)
    (seq time_sleep
    (act_bind (locate w 0 download_selectors) (\<lambda>download_link.
     seq (emit (Log INFO ''Clicking Download as CSV link...''))
    (seq (emit Execute_script)
    (seq (if scroll_ok w download_link then ret () else throw WebDriverException)
    (seq time_sleep
    (seq (try_except (click w download_link)
            (\<lambda>e1. seq (emit (Log WARNING ''Regular click failed''))
                       (emit (Log INFO ''Try to uncomment workaround 3.''))))
    (seq (emit (Log INFO ''Waiting for download to finish...''))
    (act_bind (wait_for_download_complete w initial_files (timeout_cfg w)) (\<lambda>downloaded_file.
     seq (case downloaded_file of
            Some f \<Rightarrow> seq (emit (Log INFO ''CSV downloaded'')) (emit (Log INFO ''File location''))
          | None \<Rightarrow>
              seq (emit (Log ERROR ''Download failed or timed out.''))
             (seq (emit (Glob ''*'')) (emit (Log INFO ''Files in download directory''))))
       (ret downloaded_file))))))))))))))))"

text \<open>
  The \<open>finally\<close> block (lines 240-260): quit the browser, any exception of that
  swallowed; then \<open>time.sleep(2)\<close> and the sweep, both outside the inner \<open>try\<close>.
\<close>

definition cleanup :: "world \<Rightarrow> unit act" where
  "cleanup w =
     seq (try_except
            (seq (emit (Log INFO ''Closing browser...''))
            (seq (emit Quit)
            (seq (if quit_ok w then ret () else throw WebDriverException)
                 (emit (Log INFO ''Browser closed successfully'')))))
            (\<lambda>e. emit (Log WARNING
                    ''Browser cleanup completed (some background processes may persist)'')))
    (seq time_sleep
         (kill_chromedriver w))"

text \<open>
  \<open>download_todays_price\<close> (lines 129-262). The browser is started, the first script
  run and the directory listed before the \<open>try\<close> is entered. The local variable
  \<open>downloaded_file\<close> is bound only when the \<open>try\<close> block reached line 224: \<open>Some f\<close>
  is "bound to \<open>f\<close>", \<open>None\<close> is "unbound", and line 262 reads it.
\<close>

definition download_todays_price :: "world \<Rightarrow> string option act" where
  "download_todays_price w =
     seq (setup_browser w)
    (seq (emit Execute_script)
    (seq (if stealth_ok w then ret () else throw WebDriverException)
    (seq (emit (Glob ''*''))
    (act_bind
       (try_finally
          (try_except
             (act_bind (attempt w (entries w)) (\<lambda>f. ret (Some f)))
             (\<lambda>e. seq (emit (Log INFO ''Error occurred'')) (seq (emit Print_exc) (ret None))))
          (cleanup w))
       (\<lambda>downloaded_file.
          case downloaded_file of None \<Rightarrow> throw UnboundLocalError | Some f \<Rightarrow> ret f)))))"

subsection \<open>\<open>PriceDataApp\<close>: the orchestrator\<close>

text \<open>
  What an instance of \<open>PriceDataApp\<close> has: the three attributes set in \<open>__init__\<close>
  (lines 318-320) and the methods of the class.
\<close>

definition PriceDataApp_attributes :: "string list" where
  "PriceDataApp_attributes =
     [''file_manager'', ''market_checker'', ''download_file'', ''download_todays_data'', ''run'']"

definition getattr_app :: "string \<Rightarrow> unit act" where
  "getattr_app name =
     (if name \<in> set PriceDataApp_attributes then ret () else throw AttributeError)"

text \<open>
  \<open>download_todays_data\<close> (lines 322-345). Line 338 reads
  \<open>self.download_filedownload_todays_price()\<close>: the attribute of that name is looked up
  on the instance before anything is called. The call written after the lookup is the
  one the name is spelled from, \<open>download_file\<close> then \<open>download_todays_price\<close>.
\<close>

definition download_todays_data :: "world \<Rightarrow> bool act" where
  "download_todays_data w =
     (if is_weekend w
      then seq (emit (Log INFO ''Weekend detected - market closed, skipping download''))
               (ret True)
      else act_bind (get_todays_files w) (\<lambda>todays_files.
        if todays_files \<noteq> []
        then seq (emit (Log INFO ''File already downloaded today'')) (ret True)
        else
          seq (emit (Log INFO ''No file found for today. Starting download...''))
         (seq (getattr_app ''download_filedownload_todays_price'')
         (act_bind (download_todays_price w) (\<lambda>raw_file.
          act_bind
            (case raw_file of
               None \<Rightarrow> ret False
             | Some p \<Rightarrow>
                 call_method1 is_file_modified_today_nparams (is_file_modified_today w) p)
            (\<lambda>fresh.
               if fresh then seq (emit (Log INFO ''Successfully downloaded:'')) (ret True)
               else seq (emit (Log ERROR ''Failed to download today's price file.''))
                        (ret False)))))))"

text \<open>\<open>run\<close> (lines 347-358) returns nothing, whatever happened.\<close>

definition run :: "world \<Rightarrow> unit act" where
  "run w =
     try_except
       (act_bind (download_todays_data w) (\<lambda>success.
          if success then emit (Log INFO ''Task completed successfully'')
          else emit (Log ERROR ''Something went wrong. Please check log'')))
       (\<lambda>e. emit (Log ERROR ''An unexpected error occured!''))"

text \<open>
  The module ends with \<open>app.run()\<close> (lines 362-363): the interpreter exits with status 0
  when the last statement returns, with status 1 when an exception leaves it. The module
  never calls \<open>sys.exit\<close>.
\<close>

definition exit_status :: "world \<Rightarrow> int option" where
  "exit_status w =
     (case run w of
        None \<Rightarrow> None
      | Some (Inr _, _) \<Rightarrow> Some 0
      | Some (Inl _, _) \<Rightarrow> Some 1)"

text \<open>
  Lines 49-56: with \<open>--log\<close> the root logger writes records of level INFO and above to
  stdout; without it the threshold is \<open>CRITICAL + 1\<close> and no record is written.
\<close>

definition levelno :: "level \<Rightarrow> int" where
  "levelno l = (case l of INFO \<Rightarrow> 20 | WARNING \<Rightarrow> 30 | ERROR \<Rightarrow> 40)"

definition root_level :: "bool \<Rightarrow> int" where
  "root_level log = (if log then 20 else 50 + 1)"

definition is_written :: "bool \<Rightarrow> event \<Rightarrow> bool" where
  "is_written log ev = (case ev of Log l _ \<Rightarrow> root_level log \<le> levelno l | _ \<Rightarrow> False)"

definition written :: "world \<Rightarrow> event list" where
  "written w = filter (is_written (log_flag w)) (trace (run w))"

subsection \<open>Concrete runs\<close>

text \<open>
  Monday 2024-05-20 with the default configuration (\<open>WEEKEND_DAYS = {4, 5}\<close>,
  \<open>TIMEOUT = 60\<close>, no \<open>--log\<close>), an empty store directory, and a browser that starts and
  loads the page but finds no download control under any selector.
\<close>

definition monday :: world where
  "monday =
     \<lparr> today = Date 2024 5 20,
       weekend_days = {4, 5},
       log_flag = False,
       raw_dir = ''/srv/cloud_lab_sim/todays_price'',
       entries = [],
       stat_of = (\<lambda>_. Stat_missing),
       timeout_cfg = 60,
       clock = (\<lambda>k. int k),
       dir_at = (\<lambda>_. []),
       marker_at = (\<lambda>_. []),
       chrome_starts = True,
       stealth_ok = True,
       page_loads = True,
       clickable = (\<lambda>_. False),
       scroll_ok = (\<lambda>link. link \<noteq> None),
       click_ok = True,
       quit_ok = True,
       pkill_result = Some 0 \<rparr>"

text \<open>Friday 2024-05-24, a non-trading day, with last Monday's file in the store.\<close>

definition friday :: world where
  "friday = monday \<lparr> today := Date 2024 5 24, entries := [''Today's Price - 2024-05-20.csv''] \<rparr>"

text \<open>Monday again, after the day's file has been downloaded.\<close>

definition monday_downloaded :: world where
  "monday_downloaded =
     monday \<lparr> entries := [''Today's Price - 2024-05-20.csv''],
              stat_of := (\<lambda>p. if p = ''/srv/cloud_lab_sim/todays_price/Today's Price - 2024-05-20.csv''
                               then Stat_ok True (Date 2024 5 20) else Stat_missing) \<rparr>"

text \<open>Monday, with one CSV file in the store whose name carries no date.\<close>

definition monday_foreign :: world where
  "monday_foreign = monday \<lparr> entries := [''notes.csv''] \<rparr>"

text \<open>
  Monday, empty store, and a site that works: the first selector finds the control, the
  click starts the transfer, and from the first polling round on the new file is in the
  directory, complete and modified today.
\<close>

definition monday_delivering :: world where
  "monday_delivering =
     monday \<lparr> clickable := (\<lambda>_. True),
              dir_at := (\<lambda>_. [''Today's Price - 2024-05-20.csv'']),
              stat_of := (\<lambda>p. if p = ''Today's Price - 2024-05-20.csv''
                               then Stat_ok True (Date 2024 5 20) else Stat_missing) \<rparr>"

text \<open>
  Monday, empty store, on a file system that refuses a name of more than 255 bytes
  (\<open>NAME_MAX\<close>) with ENAMETOOLONG.
\<close>

definition monday_name_max :: world where
  "monday_name_max =
     monday \<lparr> stat_of := (\<lambda>p. if list_ex (\<lambda>part. 255 < length part) (path_parts p)
                               then Stat_denied else Stat_missing) \<rparr>"

section \<open>Properties\<close>

subsection \<open>Evaluation lemmas\<close>

lemma time_sleep_raises: "time_sleep = Some (Inl AttributeError, [])"
  by (simp add: time_sleep_def module_time_def attributes_of_def throw_def)

lemma time_time_raises: "time_time now = Some (Inl AttributeError, [])"
  by (simp add: time_time_def module_time_def attributes_of_def throw_def)

lemma weekday_friday: "weekday (Date 2024 5 24) = 4"
  by (simp add: weekday_def toordinal_def days_before_year_def days_before_month_def is_leap_def)

lemma weekday_monday: "weekday (Date 2024 5 20) = 0"
  by (simp add: weekday_def toordinal_def days_before_year_def days_before_month_def is_leap_def)

lemma is_weekend_friday: "is_weekend friday"
  by (simp add: is_weekend_def friday_def monday_def weekday_friday)

lemma not_weekend_monday: "\<not> is_weekend monday"
  by (simp add: is_weekend_def monday_def weekday_monday)

lemma comprehension_first_raises:
  assumes "xs \<noteq> []"
  shows "comprehension (call_method1 (Suc 0) f) xs = Some (Inl TypeError, [])"
  using assms by (cases xs) (simp_all add: call_method1_def act_bind_def throw_def)

lemma csv_listing_nonempty:
  assumes "name \<in> set (entries w)" "ends_with ''.csv'' name"
  shows "sort (remdups (filter (ends_with ''.csv'') (entries w))) \<noteq> []"
proof -
  have "name \<in> set (sort (remdups (filter (ends_with ''.csv'') (entries w))))"
    using assms by simp
  then show ?thesis by (metis empty_iff empty_set)
qed

lemma get_todays_files_raises:
  assumes "name \<in> set (entries w)" "ends_with ''.csv'' name"
  shows "get_todays_files w = Some (Inl TypeError, [Glob ''*.csv''])"
  using comprehension_first_raises [OF csv_listing_nonempty [OF assms]]
  by (simp add: get_todays_files_def is_file_from_today_nparams_def seq_def act_bind_def emit_def)

lemma get_todays_files_empty:
  assumes "filter (ends_with ''.csv'') (entries w) = []"
  shows "get_todays_files w = Some (Inr [], [Glob ''*.csv''])"
  using assms by (simp add: get_todays_files_def seq_def act_bind_def emit_def ret_def)

text \<open>The listing has two outcomes only: an empty list, or TypeError at the first CSV file.\<close>

lemma get_todays_files_cases:
  "get_todays_files w = Some (Inl TypeError, [Glob ''*.csv'']) \<or>
   get_todays_files w = Some (Inr [], [Glob ''*.csv''])"
proof (cases "filter (ends_with ''.csv'') (entries w)")
  case Nil
  then show ?thesis by (simp add: get_todays_files_empty)
next
  case (Cons name rest)
  then have "name \<in> set (filter (ends_with ''.csv'') (entries w))" by simp
  then have "name \<in> set (entries w)" "ends_with ''.csv'' name" by simp_all
  then show ?thesis by (simp add: get_todays_files_raises)
qed

lemma existing_file_run:
  assumes "\<not> is_weekend w" "name \<in> set (entries w)" "ends_with ''.csv'' name"
  shows "download_todays_data w = Some (Inl TypeError, [Glob ''*.csv''])"
  using assms(1) get_todays_files_raises [OF assms(2,3)]
  by (simp add: download_todays_data_def act_bind_def)

lemma download_path_raises:
  assumes "\<not> is_weekend w" "get_todays_files w = Some (Inr [], tr)"
  shows "download_todays_data w =
           Some (Inl AttributeError,
                 tr @ [Log INFO ''No file found for today. Starting download...''])"
  using assms
  by (simp add: download_todays_data_def getattr_app_def PriceDataApp_attributes_def
      seq_def act_bind_def emit_def throw_def)

lemma ends_with_todays_name: "ends_with ''.csv'' ''Today's Price - 2024-05-20.csv''"
  by (simp add: ends_with_def)

lemma stem_todays_name: "last_piece (stem ''Today's Price - 2024-05-20.csv'') = ''2024-05-20''"
  by code_simp

lemma strptime_today: "strptime_ymd ''2024-05-20'' = Inr (Date 2024 5 20)"
  by code_simp

lemma body_todays_name:
  "is_file_from_today monday_downloaded ''Today's Price - 2024-05-20.csv'' = Some (Inr True, [])"
  by (simp add: is_file_from_today_def stem_todays_name strptime_today ret_def
      monday_downloaded_def monday_def)

lemma not_weekend_monday_downloaded: "\<not> is_weekend monday_downloaded"
  by (simp add: is_weekend_def monday_downloaded_def monday_def weekday_monday)

lemma not_weekend_monday_delivering: "\<not> is_weekend monday_delivering"
  by (simp add: is_weekend_def monday_delivering_def monday_def weekday_monday)

lemma stem_notes: "last_piece (stem ''notes.csv'') = ''notes''"
  by code_simp

lemma strptime_notes: "strptime_ymd ''notes'' = Inl ValueError"
  by code_simp

lemma wait_raises:
  "wait_for_download_complete w initial_files timeout = Some (Inl AttributeError, [])"
  by (simp add: wait_for_download_complete_def time_time_raises act_bind_def)

lemma attempt_raises:
  "attempt w initial_files =
     Some (Inl (if page_loads w then AttributeError else WebDriverException),
       [Log INFO ''Driver started successfully'', Log INFO ''Download directory:'',
        Log INFO ''Starting the process....'', Log INFO ''Opening NEPSE 'Today's Price' page...'',
        Get_page])"
  by (simp add: attempt_def time_sleep_raises seq_def act_bind_def throw_def emit_def ret_def)

lemma cleanup_raises:
  "cleanup w =
     Some (Inl AttributeError,
       [Log INFO ''Closing browser...'', Quit,
        if quit_ok w then Log INFO ''Browser closed successfully''
        else Log WARNING ''Browser cleanup completed (some background processes may persist)''])"
  by (simp add: cleanup_def time_sleep_raises try_except_def throw_def
      ret_def emit_def seq_def act_bind_def)

lemma download_todays_price_raises:
  assumes "chrome_starts w" "stealth_ok w"
  shows "download_todays_price w =
     Some (Inl AttributeError,
       [Chrome_start, Execute_script, Glob ''*'',
        Log INFO ''Driver started successfully'', Log INFO ''Download directory:'',
        Log INFO ''Starting the process....'', Log INFO ''Opening NEPSE 'Today's Price' page...'',
        Get_page, Log INFO ''Error occurred'', Print_exc,
        Log INFO ''Closing browser...'', Quit,
        if quit_ok w then Log INFO ''Browser closed successfully''
        else Log WARNING ''Browser cleanup completed (some background processes may persist)''])"
  using assms
  by (simp add: download_todays_price_def setup_browser_def attempt_raises cleanup_raises
      seq_def emit_def act_bind_def try_except_def try_finally_def ret_def)

lemma run_after_exception:
  assumes "download_todays_data w = Some (Inl e, tr)"
  shows "run w = Some (Inr (), tr @ [Log ERROR ''An unexpected error occured!''])"
  using assms by (simp add: run_def try_except_def act_bind_def emit_def)

lemma run_friday:
  "run friday = Some (Inr (), [Log INFO ''Weekend detected - market closed, skipping download'',
                               Log INFO ''Task completed successfully''])"
  using is_weekend_friday
  by (simp add: run_def download_todays_data_def try_except_def seq_def act_bind_def
      emit_def ret_def)

subsection \<open>The schedule gate\<close>

text \<open>
  C1. On a date whose weekday index is in the configured non-trading set,
  \<open>download_todays_data\<close> returns \<open>True\<close> at once: its whole trace is the one log
  record, so the store directory is not listed, no file is examined and no browser
  action takes place.
\<close>

theorem weekend_returns_at_once:
  assumes "is_weekend w"
  shows "download_todays_data w =
           Some (Inr True, [Log INFO ''Weekend detected - market closed, skipping download''])"
  using assms by (simp add: download_todays_data_def seq_def act_bind_def emit_def ret_def)

theorem weekend_returns_at_once_witness:
  "is_weekend friday \<and> entries friday = [''Today's Price - 2024-05-20.csv''] \<and>
   download_todays_data friday =
     Some (Inr True, [Log INFO ''Weekend detected - market closed, skipping download''])"
  using weekend_returns_at_once [OF is_weekend_friday]
  by (simp add: is_weekend_friday) (simp add: friday_def monday_def)

text \<open>
  C2 says that on a trading day with today's correctly named artifact in the store the
  orchestrator returns success without the retriever. The code does not return: on a
  trading day with any CSV file in the store directory, \<open>get_todays_files\<close> hands the
  first file to \<open>self.is_file_from_today\<close>, which is declared with one parameter and
  receives two, and \<open>download_todays_data\<close> ends in TypeError after the one directory
  listing. No browser event occurs, as C2 says, but no success is returned. The concrete
  run has exactly the file \<open>Today's Price - 2024-05-20.csv\<close> on 2024-05-20, a name the
  body of \<open>is_file_from_today\<close> would accept.
\<close>

theorem existing_artifact_raises_TypeError:
  assumes "\<not> is_weekend w" "name \<in> set (entries w)" "ends_with ''.csv'' name"
  shows "download_todays_data w = Some (Inl TypeError, [Glob ''*.csv''])"
  using assms by (rule existing_file_run)

theorem existing_artifact_raises_TypeError_witness:
  "\<not> is_weekend monday_downloaded \<and>
   ''Today's Price - 2024-05-20.csv'' \<in> set (entries monday_downloaded) \<and>
   is_file_from_today monday_downloaded ''Today's Price - 2024-05-20.csv'' = Some (Inr True, []) \<and>
   download_todays_data monday_downloaded = Some (Inl TypeError, [Glob ''*.csv''])"
proof -
  have h: "''Today's Price - 2024-05-20.csv'' \<in> set (entries monday_downloaded)"
    by (simp add: monday_downloaded_def monday_def)
  show ?thesis
    using existing_artifact_raises_TypeError
            [OF not_weekend_monday_downloaded h ends_with_todays_name]
          h not_weekend_monday_downloaded body_todays_name
    by simp
qed

subsection \<open>The artifact store\<close>

text \<open>
  C3 as stated fails: with the one file \<open>notes.csv\<close> in the store, whose date portion
  \<open>notes\<close> does not parse, listing today's files raises instead of skipping the file.
\<close>

theorem malformed_name_counterexample:
  "''notes.csv'' \<in> set (entries monday_foreign) \<and>
   strptime_ymd (last_piece (stem ''notes.csv'')) = Inl ValueError \<and>
   get_todays_files monday_foreign = Some (Inl TypeError, [Glob ''*.csv''])"
proof -
  have h: "''notes.csv'' \<in> set (entries monday_foreign)"
    by (simp add: monday_foreign_def monday_def)
  have e: "ends_with ''.csv'' ''notes.csv''" by (simp add: ends_with_def)
  show ?thesis using h get_todays_files_raises [OF h e] by (simp add: stem_notes strptime_notes)
qed

text \<open>
  C3, amended. A CSV file of the store directory whose embedded date portion does not
  parse is not skipped: \<open>is_file_from_today\<close> raises ValueError on it, neither it nor
  \<open>get_todays_files\<close> handles any exception, and listing a directory that holds such a
  file ends in an exception.
\<close>

theorem malformed_name_raises:
  assumes "name \<in> set (entries w)" "ends_with ''.csv'' name"
    and "strptime_ymd (last_piece (stem name)) = Inl ValueError"
  shows "is_file_from_today w name = Some (Inl ValueError, []) \<and>
         (\<exists>e tr. get_todays_files w = Some (Inl e, tr))"
  using assms(3) get_todays_files_raises [OF assms(1,2)]
  by (simp add: is_file_from_today_def throw_def)

theorem malformed_name_raises_witness:
  "''notes.csv'' \<in> set (entries monday_foreign) \<and> ends_with ''.csv'' ''notes.csv'' \<and>
   strptime_ymd (last_piece (stem ''notes.csv'')) = Inl ValueError \<and>
   is_file_from_today monday_foreign ''notes.csv'' = Some (Inl ValueError, []) \<and>
   (\<exists>e tr. get_todays_files monday_foreign = Some (Inl e, tr))"
proof -
  have h: "''notes.csv'' \<in> set (entries monday_foreign)"
    by (simp add: monday_foreign_def monday_def)
  have e: "ends_with ''.csv'' ''notes.csv''" by (simp add: ends_with_def)
  have p: "strptime_ymd (last_piece (stem ''notes.csv'')) = Inl ValueError"
    by (simp add: stem_notes strptime_notes)
  show ?thesis using malformed_name_raises [OF h e p] h e p by simp
qed

text \<open>
  C9 as stated fails: it promises \<open>None\<close>, never an exception, for every date string
  whose file does not exist. For a date string of 240 characters the expected file name
  has 260, so no such file can exist, yet \<open>stat\<close> fails with ENAMETOOLONG, which
  \<open>Path.is_file\<close> does not swallow: the lookup raises OSError.
\<close>

theorem long_date_counterexample:
  "length (''Today's Price - '' @ replicate 240 CHR ''9'' @ ''.csv'') = 260 \<and>
   get_file_by_date monday_name_max (replicate 240 CHR ''9'') ''raw'' =
     Some (Inl OSError,
           [Stat (joinpath (raw_dir monday_name_max)
                    (''Today's Price - '' @ replicate 240 CHR ''9'' @ ''.csv''))]) \<and>
   outcome (file_exists_for_date monday_name_max (replicate 240 CHR ''9'') ''raw'')
     = Some (Inl OSError)"
proof -
  have d: "stat_of monday_name_max
             (joinpath (raw_dir monday_name_max)
                (''Today's Price - '' @ replicate 240 CHR ''9'' @ ''.csv'')) = Stat_denied"
    by code_simp
  show ?thesis
    using d
    by (simp add: get_file_by_date_def file_exists_for_date_def is_file_def outcome_def
        seq_def act_bind_def emit_def throw_def)
qed

text \<open>
  C9, amended. For every date string, \<open>get_file_by_date\<close> examines exactly one path,
  the file \<open>Today's Price - <date>.csv\<close> joined to the store directory as \<open>pathlib\<close>
  joins it, whatever \<open>file_type\<close> is. When that path is a regular file the result is
  the path; when \<open>stat\<close> reports that there is no such file, or the path is not a
  regular file, the result is \<open>None\<close>, returned and not raised; a path is returned only
  when it is that one and it is a regular file; and when \<open>stat\<close> fails in any other
  way (the name is too long, the directory may not be searched) the OSError of \<open>stat\<close>
  is raised. \<open>file_exists_for_date\<close> answers accordingly.
\<close>

theorem get_file_by_date_by_stat:
  "(stat_of w (joinpath (raw_dir w) (''Today's Price - '' @ date_str @ ''.csv''))
      = Stat_ok True modified \<longrightarrow>
      get_file_by_date w date_str file_type =
        Some (Inr (Some (joinpath (raw_dir w) (''Today's Price - '' @ date_str @ ''.csv''))),
              [Stat (joinpath (raw_dir w) (''Today's Price - '' @ date_str @ ''.csv''))])
      \<and> outcome (file_exists_for_date w date_str file_type) = Some (Inr True))
   \<and> (stat_of w (joinpath (raw_dir w) (''Today's Price - '' @ date_str @ ''.csv''))
         \<in> {Stat_missing, Stat_ok False modified} \<longrightarrow>
      get_file_by_date w date_str file_type =
        Some (Inr None, [Stat (joinpath (raw_dir w) (''Today's Price - '' @ date_str @ ''.csv''))])
      \<and> outcome (file_exists_for_date w date_str file_type) = Some (Inr False))
   \<and> (stat_of w (joinpath (raw_dir w) (''Today's Price - '' @ date_str @ ''.csv''))
         = Stat_denied \<longrightarrow>
      get_file_by_date w date_str file_type =
        Some (Inl OSError,
              [Stat (joinpath (raw_dir w) (''Today's Price - '' @ date_str @ ''.csv''))])
      \<and> outcome (file_exists_for_date w date_str file_type) = Some (Inl OSError))
   \<and> (outcome (get_file_by_date w date_str file_type) = Some (Inr (Some found)) \<longrightarrow>
      found = joinpath (raw_dir w) (''Today's Price - '' @ date_str @ ''.csv'')
      \<and> (\<exists>d. stat_of w found = Stat_ok True d))"
  by (auto simp add: get_file_by_date_def file_exists_for_date_def is_file_def outcome_def
      seq_def act_bind_def emit_def ret_def throw_def Let_def split: stat_result.splits if_splits)

theorem get_file_by_date_by_stat_witness:
  "stat_of monday_downloaded
     (joinpath (raw_dir monday_downloaded) (''Today's Price - '' @ ''2024-05-20'' @ ''.csv''))
     = Stat_ok True (Date 2024 5 20) \<and>
   get_file_by_date monday_downloaded ''2024-05-20'' ''raw'' =
     Some (Inr (Some ''/srv/cloud_lab_sim/todays_price/Today's Price - 2024-05-20.csv''),
           [Stat ''/srv/cloud_lab_sim/todays_price/Today's Price - 2024-05-20.csv'']) \<and>
   stat_of monday_downloaded
     (joinpath (raw_dir monday_downloaded) (''Today's Price - '' @ ''a//b/./c'' @ ''.csv''))
     = Stat_missing \<and>
   get_file_by_date monday_downloaded ''a//b/./c'' ''raw'' =
     Some (Inr None, [Stat ''/srv/cloud_lab_sim/todays_price/Today's Price - a/b/c.csv'']) \<and>
   stat_of monday_name_max
     (joinpath (raw_dir monday_name_max) (''Today's Price - '' @ replicate 240 CHR ''9'' @ ''.csv''))
     = Stat_denied \<and>
   outcome (get_file_by_date monday_name_max (replicate 240 CHR ''9'') ''raw'')
     = Some (Inl OSError)"
proof -
  have p: "joinpath (raw_dir monday_downloaded) (''Today's Price - '' @ ''2024-05-20'' @ ''.csv'')
           = ''/srv/cloud_lab_sim/todays_price/Today's Price - 2024-05-20.csv''"
    by code_simp
  have q: "joinpath (raw_dir monday_downloaded) (''Today's Price - '' @ ''a//b/./c'' @ ''.csv'')
           = ''/srv/cloud_lab_sim/todays_price/Today's Price - a/b/c.csv''"
    by code_simp
  have a: "stat_of monday_downloaded
             (joinpath (raw_dir monday_downloaded) (''Today's Price - '' @ ''2024-05-20'' @ ''.csv''))
           = Stat_ok True (Date 2024 5 20)"
    unfolding p by (simp add: monday_downloaded_def monday_def)
  have b: "stat_of monday_downloaded
             (joinpath (raw_dir monday_downloaded) (''Today's Price - '' @ ''a//b/./c'' @ ''.csv''))
           = Stat_missing"
    unfolding q by (simp add: monday_downloaded_def monday_def)
  have c: "stat_of monday_name_max
             (joinpath (raw_dir monday_name_max)
                (''Today's Price - '' @ replicate 240 CHR ''9'' @ ''.csv'')) = Stat_denied"
    by code_simp
  note t = get_file_by_date_by_stat
             [where w = monday_downloaded and date_str = "''2024-05-20''"
                and modified = "Date 2024 5 20" and file_type = "''raw''" and found = "[]"]
  note u = get_file_by_date_by_stat
             [where w = monday_downloaded and date_str = "''a//b/./c''"
                and modified = "Date 2024 5 20" and file_type = "''raw''" and found = "[]"]
  note v = get_file_by_date_by_stat
             [where w = monday_name_max and date_str = "replicate 240 CHR ''9''"
                and modified = "Date 2024 5 20" and file_type = "''raw''" and found = "[]"]
  from t a have 1: "get_file_by_date monday_downloaded ''2024-05-20'' ''raw'' =
      Some (Inr (Some (joinpath (raw_dir monday_downloaded)
                         (''Today's Price - '' @ ''2024-05-20'' @ ''.csv''))),
            [Stat (joinpath (raw_dir monday_downloaded)
                         (''Today's Price - '' @ ''2024-05-20'' @ ''.csv''))])"
    by blast
  from u b have 2: "get_file_by_date monday_downloaded ''a//b/./c'' ''raw'' =
      Some (Inr None, [Stat (joinpath (raw_dir monday_downloaded)
                         (''Today's Price - '' @ ''a//b/./c'' @ ''.csv''))])"
    by blast
  from v c have 3: "get_file_by_date monday_name_max (replicate 240 CHR ''9'') ''raw'' =
      Some (Inl OSError, [Stat (joinpath (raw_dir monday_name_max)
                         (''Today's Price - '' @ replicate 240 CHR ''9'' @ ''.csv''))])"
    by blast
  have 4: "outcome (get_file_by_date monday_name_max (replicate 240 CHR ''9'') ''raw'')
             = Some (Inl OSError)"
    unfolding 3 by (simp add: outcome_def)
  show ?thesis using 1 2 4 a b c unfolding p q by simp
qed

subsection \<open>The retriever\<close>

text \<open>
  C10. Whatever its arguments and whatever the directory and the clock do,
  \<open>wait_for_download_complete\<close> ends in AttributeError with an empty trace: line 77
  looks up \<open>time\<close> on the class \<open>datetime.time\<close>, which has no such attribute, before
  the directory is listed once. So the function returns neither a file nor \<open>None\<close>.
\<close>

theorem wait_raises_before_polling:
  "wait_for_download_complete w initial_files timeout = Some (Inl AttributeError, [])"
  by (rule wait_raises)

theorem wait_raises_before_polling_witness:
  "wait_for_download_complete monday_delivering (entries monday_delivering) 60
     = Some (Inl AttributeError, [])"
  using wait_raises_before_polling [of monday_delivering "entries monday_delivering" 60] by simp

text \<open>
  C5 says that the polling returns a new CSV file only in a round without a
  \<open>.crdownload\<close> marker, and \<open>None\<close> when the timeout elapses first. The code never
  returns \<open>None\<close>, for no world and no arguments: where C5 promises \<open>None\<close> (the
  directory of the concrete run never changes, so the timeout of 60 seconds would
  elapse), the call ends in AttributeError, for the reason given under C10. No file is
  ever returned either, with or without a marker.
\<close>

theorem wait_never_returns_none:
  "outcome (wait_for_download_complete w initial_files timeout) \<noteq> Some (Inr None)"
  by (simp add: wait_raises outcome_def)

theorem wait_never_returns_none_witness:
  "outcome (wait_for_download_complete monday [] 60) \<noteq> Some (Inr None) \<and>
   wait_for_download_complete monday [] 60 = Some (Inl AttributeError, [])"
  using wait_never_returns_none [of monday "[]" 60] by (simp add: wait_raises)

text \<open>
  C4 says that a retrieval in which every selector fails returns \<open>None\<close> and lets no
  exception escape. The code lets one escape from every retrieval whose browser starts:
  \<open>time.sleep(5)\<close> of line 148 raises AttributeError before the first selector is
  tried (no \<open>Wait_clickable\<close> event occurs); that one is caught by line 235, but
  \<open>time.sleep(2)\<close> of line 259 raises again inside the \<open>finally\<close> block, and this
  AttributeError reaches the caller. In the concrete run no selector would find the
  control.
\<close>

theorem retrieval_raises_AttributeError:
  assumes "chrome_starts w" "stealth_ok w"
  shows "outcome (download_todays_price w) = Some (Inl AttributeError) \<and>
         Wait_clickable i \<notin> set (trace (download_todays_price w))"
  by (simp add: download_todays_price_raises [OF assms] outcome_def trace_def)

theorem retrieval_raises_AttributeError_witness:
  "chrome_starts monday \<and> stealth_ok monday \<and> (\<forall>i. \<not> clickable monday i) \<and>
   outcome (download_todays_price monday) = Some (Inl AttributeError) \<and>
   Wait_clickable 0 \<notin> set (trace (download_todays_price monday))"
proof -
  have c: "chrome_starts monday" and s: "stealth_ok monday" by (simp_all add: monday_def)
  have n: "\<forall>i. \<not> clickable monday i" by (simp add: monday_def)
  show ?thesis using retrieval_raises_AttributeError [OF c s, of 0] c s n by simp
qed

text \<open>
  C6 says that the cleanup runs on every exit path, quits the browser, then sweeps the
  driver processes, and never passes a failure of its own to the caller. In the code the
  \<open>finally\<close> block does quit the browser, but it never reaches the sweep and it does
  fail towards the caller: \<open>time.sleep(2)\<close> of line 259, between the two, raises
  AttributeError outside any handler. So no retrieval runs \<open>pkill\<close>, and every
  retrieval whose browser starts ends in the AttributeError of its own cleanup.
\<close>

theorem cleanup_skips_sweep_and_raises:
  "outcome (cleanup w) = Some (Inl AttributeError) \<and>
   Quit \<in> set (trace (cleanup w)) \<and> Pkill \<notin> set (trace (cleanup w)) \<and>
   (chrome_starts w \<and> stealth_ok w \<longrightarrow>
      outcome (download_todays_price w) = Some (Inl AttributeError) \<and>
      Quit \<in> set (trace (download_todays_price w)) \<and>
      Pkill \<notin> set (trace (download_todays_price w)))"
  by (simp add: cleanup_raises download_todays_price_raises outcome_def trace_def)

theorem cleanup_skips_sweep_and_raises_witness:
  "chrome_starts monday_delivering \<and> stealth_ok monday_delivering \<and>
   outcome (cleanup monday_delivering) = Some (Inl AttributeError) \<and>
   Quit \<in> set (trace (download_todays_price monday_delivering)) \<and>
   Pkill \<notin> set (trace (download_todays_price monday_delivering)) \<and>
   outcome (download_todays_price monday_delivering) = Some (Inl AttributeError)"
proof -
  have c: "chrome_starts monday_delivering" and s: "stealth_ok monday_delivering"
    by (simp_all add: monday_delivering_def monday_def)
  show ?thesis using cleanup_skips_sweep_and_raises [of monday_delivering] c s by simp
qed

subsection \<open>The orchestrator\<close>

text \<open>
  C7 says that on the download path (trading day, no artifact for today) the orchestrator
  reports success exactly when the retriever returned an artifact modified today, and
  failure otherwise. The code reports neither: on that path \<open>download_todays_data\<close>
  ends in AttributeError at line 338, where the attribute
  \<open>download_filedownload_todays_price\<close> is looked up on the \<open>PriceDataApp\<close> object,
  and the browser is never started. In the concrete run the site would have delivered
  today's file, freshly modified.
\<close>

theorem download_path_never_reports:
  assumes "\<not> is_weekend w" "outcome (get_todays_files w) = Some (Inr [])"
  shows "outcome (download_todays_data w) = Some (Inl AttributeError) \<and>
         Chrome_start \<notin> set (trace (download_todays_data w))"
proof -
  from assms(2) obtain tr where g: "get_todays_files w = Some (Inr [], tr)"
    by (auto simp add: outcome_def)
  with get_todays_files_cases [of w] have "tr = [Glob ''*.csv'']" by simp
  with download_path_raises [OF assms(1) g] show ?thesis
    by (simp add: outcome_def trace_def)
qed

theorem download_path_never_reports_witness:
  "\<not> is_weekend monday_delivering \<and>
   outcome (get_todays_files monday_delivering) = Some (Inr []) \<and>
   clickable monday_delivering 0 \<and>
   stat_of monday_delivering ''Today's Price - 2024-05-20.csv''
     = Stat_ok True (today monday_delivering) \<and>
   outcome (download_todays_data monday_delivering) = Some (Inl AttributeError) \<and>
   Chrome_start \<notin> set (trace (download_todays_data monday_delivering))"
proof -
  have e: "filter (ends_with ''.csv'') (entries monday_delivering) = []"
    by (simp add: monday_delivering_def monday_def)
  have g: "outcome (get_todays_files monday_delivering) = Some (Inr [])"
    by (simp add: get_todays_files_empty [OF e] outcome_def)
  have c: "clickable monday_delivering 0"
    and s: "stat_of monday_delivering ''Today's Price - 2024-05-20.csv''
              = Stat_ok True (today monday_delivering)"
    by (simp_all add: monday_delivering_def monday_def)
  show ?thesis
    using download_path_never_reports [OF not_weekend_monday_delivering g]
          not_weekend_monday_delivering g c s
    by simp
qed

text \<open>
  C8 as stated fails: the run of Monday with today's file in the store raises TypeError
  inside the chain, yet the process exits with status 0 and writes nothing, exactly as
  the successful run of Friday does. The caller cannot tell the two apart.
\<close>

theorem silent_failure_counterexample:
  "outcome (download_todays_data monday_downloaded) = Some (Inl TypeError) \<and>
   exit_status monday_downloaded = Some 0 \<and> written monday_downloaded = [] \<and>
   outcome (download_todays_data friday) = Some (Inr True) \<and>
   exit_status friday = Some 0 \<and> written friday = []"
proof -
  have h: "''Today's Price - 2024-05-20.csv'' \<in> set (entries monday_downloaded)"
    by (simp add: monday_downloaded_def monday_def)
  have d: "download_todays_data monday_downloaded = Some (Inl TypeError, [Glob ''*.csv''])"
    by (rule existing_file_run [OF not_weekend_monday_downloaded h ends_with_todays_name])
  have r: "run monday_downloaded =
             Some (Inr (), [Glob ''*.csv'', Log ERROR ''An unexpected error occured!''])"
    using run_after_exception [OF d] by simp
  have f: "download_todays_data friday =
             Some (Inr True, [Log INFO ''Weekend detected - market closed, skipping download''])"
    using is_weekend_friday
    by (simp add: download_todays_data_def seq_def act_bind_def emit_def ret_def)
  have lm: "\<not> log_flag monday_downloaded" by (simp add: monday_downloaded_def monday_def)
  have lf: "\<not> log_flag friday" by (simp add: friday_def monday_def)
  show ?thesis
    using lm lf
    by (simp add: d r f run_friday outcome_def exit_status_def written_def trace_def
        is_written_def root_level_def levelno_def)
qed

text \<open>
  C8, amended. Every exception raised in the chain below \<open>run\<close> is caught by \<open>run\<close>,
  which makes one log record of level ERROR and returns; the process then exits with
  status 0, as it does after a success. The record is written only when the script was
  started with \<open>--log\<close>; without the flag nothing at all is written.
\<close>

theorem exception_caught_exit_zero:
  assumes "download_todays_data w = Some (Inl e, tr)"
  shows "run w = Some (Inr (), tr @ [Log ERROR ''An unexpected error occured!'']) \<and>
         exit_status w = Some 0 \<and>
         (Log ERROR ''An unexpected error occured!'' \<in> set (written w)) = log_flag w \<and>
         (if log_flag w then written w \<noteq> [] else written w = [])"
  by (auto simp add: run_after_exception [OF assms] exit_status_def written_def trace_def
      is_written_def root_level_def levelno_def split: event.splits level.splits)

theorem exception_caught_exit_zero_witness:
  "download_todays_data monday_downloaded = Some (Inl TypeError, [Glob ''*.csv'']) \<and>
   run monday_downloaded =
     Some (Inr (), [Glob ''*.csv'', Log ERROR ''An unexpected error occured!'']) \<and>
   exit_status monday_downloaded = Some 0 \<and>
   \<not> log_flag monday_downloaded \<and> written monday_downloaded = []"
proof -
  have h: "''Today's Price - 2024-05-20.csv'' \<in> set (entries monday_downloaded)"
    by (simp add: monday_downloaded_def monday_def)
  have d: "download_todays_data monday_downloaded = Some (Inl TypeError, [Glob ''*.csv''])"
    by (rule existing_file_run [OF not_weekend_monday_downloaded h ends_with_todays_name])
  have l: "\<not> log_flag monday_downloaded" by (simp add: monday_downloaded_def monday_def)
  show ?thesis using exception_caught_exit_zero [OF d] d l by simp
qed

end
